theory Spec2Isabelle
  imports Main "HOL-Library.Word"
begin

section \<open>Strings of the page: UTF-16 code units, trim and split\<close>

text \<open>
  A JavaScript string is a sequence of 16-bit code units. \<open>String.prototype.trim\<close>
  strips the code units of ECMAScript's WhiteSpace and LineTerminator productions from
  both ends; \<open>split('\n')\<close> cuts at every U+000A and always returns at least one piece.
  Messages, identifiers and storage paths are plain ASCII and are kept as \<open>string\<close>.
\<close>

type_synonym js_string = "16 word list"

definition isWhiteSpace :: "16 word \<Rightarrow> bool" where
  "isWhiteSpace c =
     (c = 0x0009 \<or> c = 0x000A \<or> c = 0x000B \<or> c = 0x000C \<or> c = 0x000D \<or> c = 0x0020 \<or>
      c = 0x00A0 \<or> c = 0x1680 \<or> (0x2000 \<le> c \<and> c \<le> 0x200A) \<or> c = 0x2028 \<or>
      c = 0x2029 \<or> c = 0x202F \<or> c = 0x205F \<or> c = 0x3000 \<or> c = 0xFEFF)"

definition newline :: "16 word" where
  "newline = 0x000A"

definition trim :: "js_string \<Rightarrow> js_string" where
  "trim s = rev (dropWhile isWhiteSpace (rev (dropWhile isWhiteSpace s)))"

fun split :: "16 word \<Rightarrow> js_string \<Rightarrow> js_string list" where
  "split sep [] = [[]]"
| "split sep (c # cs) =
     (if c = sep then [] # split sep cs
      else (case split sep cs of
              [] \<Rightarrow> [[c]]
            | l # ls \<Rightarrow> (c # l) # ls))"

text \<open>
  The spec's words for the intake contract: the non-empty trimmed lines of the raw input.
\<close>

definition nonempty_trimmed_lines :: "js_string \<Rightarrow> js_string list" where
  "nonempty_trimmed_lines s = filter (\<lambda>l. l \<noteq> []) (map trim (split newline s))"

section \<open>The task record and the backend\<close>

datatype status = Pending | Completed

text \<open>The interface \<open>Transcript\<close> of page.tsx; its \<open>id\<close> is the field \<open>id_t\<close>.\<close>

record Transcript =
  id_t :: string
  transcript :: js_string
  audio_url :: "string option"
  status :: status
  created_at :: nat

type_synonym blob = "8 word list"

text \<open>
  The calls the pages make on the backend client. Each awaited call is entered in the
  backend's journal \<open>calls\<close> when it is issued, whether it succeeds or not.
\<close>

datatype call =
    CountAll
  | CountCompleted
  | SelectNextPending
  | SelectCompleted
  | Insert "js_string list"
  | Upload string blob
  | Update string string

record backend =
  rows :: "Transcript list"
  objects :: "string \<rightharpoonup> blob"
  serial :: nat
  calls :: "call list"

text \<open>
  What the pages cannot decide: whether a call fails (and with which message), the public
  URL the storage service reports for a path, and the identifier and creation time the
  server gives to the n-th row it creates.
\<close>

record env =
  failure :: "call \<Rightarrow> string option"
  publicUrl :: "string \<Rightarrow> string option"
  assign :: "nat \<Rightarrow> string \<times> nat"

definition issue :: "call \<Rightarrow> backend \<Rightarrow> backend" where
  "issue c b = b\<lparr>calls := calls b @ [c]\<rparr>"

text \<open>
  Modelled from the spec: the table definition is not among the sources. Section 6: a
  bulk insert creates one record per text, with status pending, no audio reference, and
  an identifier and a creation time assigned by the server.
\<close>

definition new_row :: "env \<Rightarrow> nat \<Rightarrow> js_string \<Rightarrow> Transcript" where
  "new_row e n t =
     \<lparr>id_t = fst (assign e n), transcript = t, audio_url = None, status = Pending,
      created_at = snd (assign e n)\<rparr>"

definition db_insert :: "env \<Rightarrow> js_string list \<Rightarrow> backend \<Rightarrow> string option \<times> backend" where
  "db_insert e ts b =
     (case failure e (Insert ts) of
        Some m \<Rightarrow> (Some m, issue (Insert ts) b)
      | None \<Rightarrow>
          (None, issue (Insert ts)
             (b\<lparr>rows := rows b @ map2 (new_row e) [serial b ..< serial b + length ts] ts,
                serial := serial b + length ts\<rparr>)))"

text \<open>
  Modelled from the spec: the update of the backend service, which is not among the
  sources. Section 6: given an identifier, it sets the audio reference and status fields
  (here of every record with that identifier, to the URL and to completed, as line 250
  asks).
\<close>

definition complete_row :: "string \<Rightarrow> string \<Rightarrow> Transcript \<Rightarrow> Transcript" where
  "complete_row i url r =
     (if id_t r = i then r\<lparr>audio_url := Some url, status := Completed\<rparr> else r)"

definition db_update :: "env \<Rightarrow> string \<Rightarrow> string \<Rightarrow> backend \<Rightarrow> string option \<times> backend" where
  "db_update e i url b =
     (case failure e (Update i url) of
        Some m \<Rightarrow> (Some m, issue (Update i url) b)
      | None \<Rightarrow> (None, issue (Update i url) (b\<lparr>rows := map (complete_row i url) (rows b)\<rparr>)))"

text \<open>
  Modelled from the spec: object storage, not among the sources. Section 6: an upload
  stores a blob at a path and, with overwrite requested (\<open>upsert: true\<close>, line 239),
  replaces what was stored there.
\<close>

definition storage_upload :: "env \<Rightarrow> string \<Rightarrow> blob \<Rightarrow> backend \<Rightarrow> string option \<times> backend" where
  "storage_upload e p d b =
     (case failure e (Upload p d) of
        Some m \<Rightarrow> (Some m, issue (Upload p d) b)
      | None \<Rightarrow> (None, issue (Upload p d) (b\<lparr>objects := (objects b)(p \<mapsto> d)\<rparr>)))"

text \<open>
  Modelled from the spec: the queries of the backend service, not among the sources.
  Section 6: count with an optional filter, and select by equality, order and limit. The
  order is by creation time; rows of equal creation time keep their order in the table.
\<close>

definition db_count :: "env \<Rightarrow> call \<Rightarrow> (Transcript \<Rightarrow> bool) \<Rightarrow> backend \<Rightarrow> (string + nat) \<times> backend" where
  "db_count e c P b =
     (case failure e c of
        Some m \<Rightarrow> (Inl m, issue c b)
      | None \<Rightarrow> (Inr (length (filter P (rows b))), issue c b))"

definition is_pending :: "Transcript \<Rightarrow> bool" where
  "is_pending r = (status r = Pending)"

definition is_completed :: "Transcript \<Rightarrow> bool" where
  "is_completed r = (status r = Completed)"

definition oldest_first :: "Transcript list \<Rightarrow> Transcript list" where
  "oldest_first rs = sort_key created_at rs"

definition newest_first :: "Transcript list \<Rightarrow> Transcript list" where
  "newest_first rs = rev (sort_key created_at rs)"

definition db_select_next_pending :: "env \<Rightarrow> backend \<Rightarrow> (string + Transcript option) \<times> backend" where
  "db_select_next_pending e b =
     (case failure e SelectNextPending of
        Some m \<Rightarrow> (Inl m, issue SelectNextPending b)
      | None \<Rightarrow>
          (Inr (case oldest_first (filter is_pending (rows b)) of
                  [] \<Rightarrow> None
                | r # _ \<Rightarrow> Some r),
           issue SelectNextPending b))"

definition db_select_completed :: "env \<Rightarrow> backend \<Rightarrow> (string + Transcript list) \<times> backend" where
  "db_select_completed e b =
     (case failure e SelectCompleted of
        Some m \<Rightarrow> (Inl m, issue SelectCompleted b)
      | None \<Rightarrow> (Inr (newest_first (filter is_completed (rows b))), issue SelectCompleted b))"

section \<open>The intake form (components/TranscriptInput.tsx)\<close>

record transcript_input =
  transcriptList :: js_string
  isSubmitting :: bool
  error_ti :: "string option"

text \<open>
  \<open>handleSubmit\<close>, lines 22 to 66. The parent's \<open>onSubmitted\<close> callback is a parameter
  acting on the parent's state; the awaited insert runs to its end within the call.
\<close>

definition handleSubmit ::
  "env \<Rightarrow> ('h \<Rightarrow> 'h) \<Rightarrow> transcript_input \<times> 'h \<times> backend \<Rightarrow> transcript_input \<times> 'h \<times> backend" where
  "handleSubmit e onSubmitted = (\<lambda>(ti, h, b).
     if trim (transcriptList ti) = [] then
       (ti\<lparr>error_ti := Some ''Transcript list cannot be empty.''\<rparr>, h, b)
     else
       let lines = filter (\<lambda>line. 0 < length line)
                     (map trim (split newline (trim (transcriptList ti))))
       in if length lines = 0 then
            (ti\<lparr>error_ti := Some ''No valid transcript lines found.''\<rparr>, h, b)
          else
            let ti1 = ti\<lparr>isSubmitting := True, error_ti := None\<rparr> in
            (case db_insert e lines b of
               (Some m, b') \<Rightarrow>
                 (ti1\<lparr>error_ti := Some (''Failed to submit transcripts: '' @
                                          (if m = [] then ''Unknown error'' else m)),
                      isSubmitting := False\<rparr>, h, b')
             | (None, b') \<Rightarrow>
                 (ti1\<lparr>transcriptList := [], isSubmitting := False\<rparr>, onSubmitted h, b')))"

section \<open>The main page (app/page.tsx)\<close>

datatype mode = Record | Review

record home =
  isLoading :: bool
  transcriptsExist :: "bool option"
  currentTranscript :: "Transcript option"
  totalCount :: nat
  completedCount :: nat
  error :: "string option"
  isUploading :: bool
  mode :: mode
  reviewList :: "Transcript list"
  isFetchingReviewList :: bool
  transcriptToRerecord :: "Transcript option"

definition tableName :: string where
  "tableName = ''transcripts''"

definition bucketName :: string where
  "bucketName = ''audio''"

text \<open>
  A query in flight, with the answer the backend has given to it. The answer reaches the
  page when the function awaiting it is resumed, in a later turn of the event loop:
  \<open>TotalCount\<close> is awaited at line 51, \<open>CompletedCount\<close> at line 59, \<open>NextPending\<close>
  at line 77, \<open>CompletedList\<close> at line 103. An \<open>Inl\<close> answer is an error, which the
  awaiting function throws into its catch block.
\<close>

datatype awaited =
    TotalCount "string + nat"
  | CompletedCount "string + nat"
  | NextPending "string + Transcript option"
  | CompletedList "string + Transcript list"

text \<open>
  The three fetch functions, lines 48 to 118, each up to its first await: what the call
  does within the caller's turn. The query is issued and stays in flight.
\<close>

definition fetchCounts :: "env \<Rightarrow> home \<times> backend \<Rightarrow> home \<times> awaited list \<times> backend" where
  "fetchCounts e = (\<lambda>(s, b).
     case db_count e CountAll (\<lambda>r. True) b of
       (a, b1) \<Rightarrow> (s, [TotalCount a], b1))"

definition fetchNextPendingTranscript ::
  "env \<Rightarrow> home \<times> backend \<Rightarrow> home \<times> awaited list \<times> backend" where
  "fetchNextPendingTranscript e = (\<lambda>(s, b).
     case db_select_next_pending e b of
       (a, b1) \<Rightarrow> (s\<lparr>error := None\<rparr>, [NextPending a], b1))"

definition fetchCompletedTranscripts_begin ::
  "env \<Rightarrow> home \<times> backend \<Rightarrow> home \<times> awaited list \<times> backend" where
  "fetchCompletedTranscripts_begin e = (\<lambda>(s, b).
     case db_select_completed e b of
       (a, b1) \<Rightarrow> (s\<lparr>isFetchingReviewList := True, error := None\<rparr>, [CompletedList a], b1))"

text \<open>
  The rest of the three functions: what runs when an answer arrives. \<open>fetchCounts\<close>
  issues its second query only here, after the first has answered without error (lines
  55 to 62); an error ends the function in its catch block.
\<close>

fun resume :: "env \<Rightarrow> awaited \<Rightarrow> home \<times> backend \<Rightarrow> home \<times> awaited list \<times> backend" where
  "resume e (TotalCount (Inl m)) (s, b) =
     (s\<lparr>error := Some (''Failed to fetch counts: '' @ m)\<rparr>, [], b)"
| "resume e (TotalCount (Inr count_total)) (s, b) =
     (case db_count e CountCompleted is_completed b of
        (a, b1) \<Rightarrow> (s\<lparr>totalCount := count_total\<rparr>, [CompletedCount a], b1))"
| "resume e (CompletedCount (Inl m)) (s, b) =
     (s\<lparr>error := Some (''Failed to fetch counts: '' @ m)\<rparr>, [], b)"
| "resume e (CompletedCount (Inr count_completed)) (s, b) =
     (s\<lparr>completedCount := count_completed\<rparr>, [], b)"
| "resume e (NextPending (Inl m)) (s, b) =
     (s\<lparr>error := Some (''Failed to fetch next transcript: '' @ m),
        currentTranscript := None\<rparr>, [], b)"
| "resume e (NextPending (Inr d)) (s, b) = (s\<lparr>currentTranscript := d\<rparr>, [], b)"
| "resume e (CompletedList (Inl m)) (s, b) =
     (s\<lparr>error := Some (''Failed to fetch review list: '' @ m), reviewList := [],
        isFetchingReviewList := False\<rparr>, [], b)"
| "resume e (CompletedList (Inr d)) (s, b) =
     (s\<lparr>reviewList := d, isFetchingReviewList := False\<rparr>, [], b)"

text \<open>
  The arrival of the answer at position \<open>i\<close> of the queries in flight, and a sequence of
  arrivals. Answers may arrive in any order; a position beyond the queue is no arrival.
\<close>

definition deliver ::
  "env \<Rightarrow> nat \<Rightarrow> home \<times> awaited list \<times> backend \<Rightarrow> home \<times> awaited list \<times> backend" where
  "deliver e i = (\<lambda>(s, q, b).
     if i < length q then
       (case resume e (q ! i) (s, b) of
          (s', q', b') \<Rightarrow> (s', take i q @ drop (Suc i) q @ q', b'))
     else (s, q, b))"


text \<open>
  \<open>fetchCompletedTranscripts\<close> as a whole, lines 99 to 118, with its answer taken at
  once: the form in which \<open>handleRecordingConfirm\<close> and \<open>switchToReviewMode\<close> below,
  which run to their end within one call, use it.
\<close>

definition fetchCompletedTranscripts :: "env \<Rightarrow> home \<times> backend \<Rightarrow> home \<times> backend" where
  "fetchCompletedTranscripts e = (\<lambda>(s, b).
     let s0 = s\<lparr>isFetchingReviewList := True, error := None\<rparr> in
     case db_select_completed e b of
       (Inl m, b1) \<Rightarrow>
         (s0\<lparr>error := Some (''Failed to fetch review list: '' @ m), reviewList := [],
             isFetchingReviewList := False\<rparr>, b1)
     | (Inr d, b1) \<Rightarrow> (s0\<lparr>reviewList := d, isFetchingReviewList := False\<rparr>, b1))"

text \<open>
  The realtime payload: the event type and the new and old record snapshots. A snapshot
  that is absent (the new one of a delete, the old one of an insert) is \<open>None\<close>, which is
  where \<open>payload.new?.id\<close> is undefined.
\<close>

datatype event_type = INSERT | UPDATE | DELETE

record payload =
  eventType :: event_type
  new :: "Transcript option"
  old :: "Transcript option"

text \<open>
  The subscription callback, lines 163 to 189: one turn of the event loop. The three
  fetches are started without await, so each runs up to its first await and leaves its
  query in flight; their answers are dealt with in later turns (\<open>resume\<close>). The updater
  passed to \<open>setMode\<close> is taken to run where \<open>setMode\<close> is called; it reads the mode
  current at that point and returns it unchanged. \<open>transcriptToRerecord?.id\<close> is the
  value the callback closed over.
\<close>

definition realtime_handler ::
  "env \<Rightarrow> payload \<Rightarrow> home \<times> backend \<Rightarrow> home \<times> awaited list \<times> backend" where
  "realtime_handler e p = (\<lambda>(s, b).
     let (s1, q1, b1) = fetchCounts e (s, b);
         (s2, q2, b2) = fetchNextPendingTranscript e (s1, b1);
         (s3, q3, b3) = (if mode s2 = Review then fetchCompletedTranscripts_begin e (s2, b2)
                         else (s2, [], b2))
     in if eventType p = UPDATE \<and> map_option id_t (new p) = map_option id_t (transcriptToRerecord s)
        then (s3\<lparr>transcriptToRerecord := None, mode := Review\<rparr>, q1 @ q2 @ q3, b3)
        else (s3, q1 @ q2 @ q3, b3))"


definition handleTranscriptsSubmitted :: "home \<Rightarrow> home" where
  "handleTranscriptsSubmitted s =
     s\<lparr>transcriptsExist := Some True, mode := Record, transcriptToRerecord := None\<rparr>"

text \<open>Line 326 (and \<open>targetTranscript\<close>, line 220): the re-record target if set, otherwise the
  current pending task.\<close>

definition activeTranscriptForRecording :: "home \<Rightarrow> Transcript option" where
  "activeTranscriptForRecording s =
     (case transcriptToRerecord s of Some t \<Rightarrow> Some t | None \<Rightarrow> currentTranscript s)"

text \<open>
  The spec's words, "the changed record's identifier": the record a notification is
  about is its new snapshot for an insert or an update and its old one for a delete.
\<close>

definition changed_record_id :: "payload \<Rightarrow> string option" where
  "changed_record_id p =
     (case eventType p of
        DELETE \<Rightarrow> map_option id_t (old p)
      | _ \<Rightarrow> map_option id_t (new p))"

definition filePath :: "string \<Rightarrow> string" where
  "filePath transcriptId = bucketName @ ''/'' @ transcriptId @ ''.webm''"

text \<open>
  \<open>handleRecordingConfirm\<close>, lines 218 to 272. The awaited upload and update run to
  their end within the call; the finally block clears \<open>isUploading\<close> on every path that
  set it.
\<close>

definition handleRecordingConfirm ::
  "env \<Rightarrow> blob option \<Rightarrow> string \<Rightarrow> home \<times> backend \<Rightarrow> home \<times> backend" where
  "handleRecordingConfirm e blob transcriptId = (\<lambda>(s, b).
     let isRerecord = (map_option id_t (transcriptToRerecord s) = Some transcriptId);
         targetTranscript =
           (case transcriptToRerecord s of Some t \<Rightarrow> Some t | None \<Rightarrow> currentTranscript s)
     in case blob of
          None \<Rightarrow> (s\<lparr>error := Some ''Recording data is missing.''\<rparr>, b)
        | Some d \<Rightarrow>
            if transcriptId = [] then (s\<lparr>error := Some ''Recording data is missing.''\<rparr>, b)
            else if (case targetTranscript of None \<Rightarrow> True | Some t \<Rightarrow> id_t t \<noteq> transcriptId)
            then (s\<lparr>error := Some ''Transcript ID mismatch.''\<rparr>, b)
            else
              let s1 = s\<lparr>isUploading := True, error := None\<rparr>;
                  failed = (\<lambda>m. s1\<lparr>error := Some (''Failed to save recording: '' @ m),
                                   isUploading := False\<rparr>)
              in case storage_upload e (filePath transcriptId) d b of
                   (Some m, b1) \<Rightarrow> (failed m, b1)
                 | (None, b1) \<Rightarrow>
                     (case publicUrl e (filePath transcriptId) of
                        None \<Rightarrow> (failed ''Could not get public URL after upload.'', b1)
                      | Some downloadURL \<Rightarrow>
                          if downloadURL = []
                          then (failed ''Could not get public URL after upload.'', b1)
                          else
                            (case db_update e transcriptId downloadURL b1 of
                               (Some m, b2) \<Rightarrow> (failed m, b2)
                             | (None, b2) \<Rightarrow>
                                 if isRerecord then
                                   (let (s2, b3) = fetchCompletedTranscripts e
                                          (s1\<lparr>transcriptToRerecord := None, mode := Review\<rparr>, b2)
                                    in (s2\<lparr>isUploading := False\<rparr>, b3))
                                 else (s1\<lparr>isUploading := False\<rparr>, b2))))"

definition handleStartRerecord :: "Transcript \<Rightarrow> home \<Rightarrow> home" where
  "handleStartRerecord t s =
     s\<lparr>transcriptToRerecord := Some t, currentTranscript := None, mode := Record, error := None\<rparr>"

definition switchToRecordMode :: "home \<Rightarrow> home" where
  "switchToRecordMode s = s\<lparr>mode := Record, transcriptToRerecord := None, error := None\<rparr>"

definition switchToReviewMode :: "env \<Rightarrow> home \<times> backend \<Rightarrow> home \<times> backend" where
  "switchToReviewMode e = (\<lambda>(s, b).
     fetchCompletedTranscripts e
       (s\<lparr>mode := Review, transcriptToRerecord := None, error := None\<rparr>, b))"

text \<open>
  The operations of the system on the stored tasks, by whichever user action,
  notification or arriving answer starts them, and their runs. The system holds the
  queries the notifications have left in flight. Every step has its own environment.
\<close>

datatype operation =
    Submit js_string
  | Confirm "blob option" string
  | StartRerecord Transcript
  | SwitchToRecord
  | SwitchToReview
  | Notify payload
  | Deliver nat

type_synonym system = "transcript_input \<times> home \<times> awaited list \<times> backend"

fun apply_operation :: "env \<Rightarrow> operation \<Rightarrow> system \<Rightarrow> system" where
  "apply_operation e (Submit input) (ti, s, q, b) =
     (case handleSubmit e handleTranscriptsSubmitted (ti\<lparr>transcriptList := input\<rparr>, s, b) of
        (ti', s', b') \<Rightarrow> (ti', s', q, b'))"
| "apply_operation e (Confirm blob transcriptId) (ti, s, q, b) =
     (let (s', b') = handleRecordingConfirm e blob transcriptId (s, b) in (ti, s', q, b'))"
| "apply_operation e (StartRerecord t) (ti, s, q, b) = (ti, handleStartRerecord t s, q, b)"
| "apply_operation e SwitchToRecord (ti, s, q, b) = (ti, switchToRecordMode s, q, b)"
| "apply_operation e SwitchToReview (ti, s, q, b) =
     (let (s', b') = switchToReviewMode e (s, b) in (ti, s', q, b'))"
| "apply_operation e (Notify p) (ti, s, q, b) =
     (case realtime_handler e p (s, b) of (s', q', b') \<Rightarrow> (ti, s', q @ q', b'))"
| "apply_operation e (Deliver i) (ti, s, q, b) =
     (case deliver e i (s, q, b) of (s', q', b') \<Rightarrow> (ti, s', q', b'))"

fun run :: "(env \<times> operation) list \<Rightarrow> system \<Rightarrow> system" where
  "run [] sys = sys"
| "run ((e, op) # rest) sys = run rest (apply_operation e op sys)"

section \<open>The recorder (components/Recorder.tsx)\<close>

text \<open>
  The component's state and refs, together with the platform objects it creates: the
  \<open>MediaRecorder\<close> objects, the capture streams (a stream is \<open>True\<close> while its tracks
  are live) and the calls it is awaiting. \<open>mediaRecorder\<close> is the ref's \<open>current\<close>, an
  index into \<open>recorders\<close>. Revoking object URLs is not tracked.
\<close>

datatype recording_state = Inactive | Recording

record media_recorder =
  mr_stream :: nat
  mr_state :: recording_state
  stop_queued :: bool
  mr_closure_audioUrl :: "nat option"

text \<open>
  An awaited call in flight, with what its continuation closed over: the
  \<open>permissionGranted\<close> and the \<open>audioUrl\<close> of the render whose handler made the call.
\<close>

datatype continuation =
    AwaitPermission
  | AwaitPermissionThenStart "bool option" "nat option"
  | AwaitDevices "bool option" "nat option"
  | AwaitCapture "nat option"

record recorder =
  isRecording :: bool
  audioBlob :: "blob option"
  audioUrl :: "nat option"
  permissionGranted :: "bool option"
  error_rec :: "string option"
  mediaRecorder :: "nat option"
  audioChunks :: "blob list"
  recorders :: "media_recorder list"
  streams :: "bool list"
  pending :: "continuation list"
  urls :: nat

text \<open>
  The platform: whether \<open>navigator.mediaDevices\<close> exists (and the message of the
  TypeError raised when it is used without existing), and whether constructing a
  \<open>MediaRecorder\<close> for \<open>audio/webm;codecs=opus\<close> throws.
\<close>

record platform =
  mediaDevices :: bool
  typeErrorMessage :: string
  mediaRecorderError :: "string option"

text \<open>\<open>MediaRecorder.stop()\<close>: the state is inactive at once, the stop event comes later.\<close>

definition recorder_stop :: "nat \<Rightarrow> recorder \<Rightarrow> recorder" where
  "recorder_stop k r =
     r\<lparr>recorders := (recorders r)[k := (recorders r ! k)\<lparr>mr_state := Inactive, stop_queued := True\<rparr>]\<rparr>"

definition stop_tracks :: "nat \<Rightarrow> recorder \<Rightarrow> recorder" where
  "stop_tracks n r = r\<lparr>streams := (streams r)[n := False]\<rparr>"

text \<open>\<open>resetState\<close>, lines 67 to 80; \<open>closure_audioUrl\<close> is the \<open>audioUrl\<close> it closed over.\<close>

definition resetState :: "nat option \<Rightarrow> recorder \<Rightarrow> recorder" where
  "resetState closure_audioUrl r =
     (let r1 = r\<lparr>isRecording := False, audioBlob := None\<rparr>;
          r2 = (case closure_audioUrl of Some u \<Rightarrow> r1\<lparr>audioUrl := None\<rparr> | None \<Rightarrow> r1);
          r3 = r2\<lparr>audioChunks := []\<rparr>;
          r4 = (case mediaRecorder r3 of
                  None \<Rightarrow> r3
                | Some k \<Rightarrow>
                    if k < length (recorders r3) \<and> mr_state (recorders r3 ! k) \<noteq> Inactive
                    then recorder_stop k r3 else r3)
      in r4\<lparr>mediaRecorder := None\<rparr>)"

text \<open>
  \<open>getMicPermission\<close>, lines 47 to 65, up to its await; \<open>k\<close> is the continuation that
  waits for the stream. Without the media devices API it ends at once.
\<close>

definition getMicPermission :: "platform \<Rightarrow> continuation \<Rightarrow> recorder \<Rightarrow> recorder" where
  "getMicPermission pf k r =
     (let r1 = r\<lparr>error_rec := None\<rparr>
      in if \<not> mediaDevices pf then
           r1\<lparr>error_rec := Some ''Media Devices API not supported in this browser.'',
              permissionGranted := Some False\<rparr>
         else r1\<lparr>pending := pending r1 @ [k]\<rparr>)"

text \<open>\<open>startRecording\<close> from line 102 to the await of line 106.\<close>

definition startRecording_capture :: "platform \<Rightarrow> nat option \<Rightarrow> recorder \<Rightarrow> recorder" where
  "startRecording_capture pf closure_audioUrl r =
     (let r1 = (resetState closure_audioUrl r)\<lparr>error_rec := None\<rparr>
      in if mediaDevices pf then r1\<lparr>pending := pending r1 @ [AwaitCapture closure_audioUrl]\<rparr>
         else resetState closure_audioUrl
                (r1\<lparr>error_rec := Some (''Could not start recording: '' @ typeErrorMessage pf)\<rparr>))"

text \<open>
  \<open>startRecording\<close>, lines 82 to 139, up to its first await; \<open>closure_permission\<close> is the
  \<open>permissionGranted\<close> the handler closed over.
\<close>

definition startRecording :: "platform \<Rightarrow> bool option \<Rightarrow> nat option \<Rightarrow> recorder \<Rightarrow> recorder" where
  "startRecording pf closure_permission closure_audioUrl r =
     (if closure_permission = Some True then startRecording_capture pf closure_audioUrl r
      else getMicPermission pf (AwaitPermissionThenStart closure_permission closure_audioUrl) r)"

definition stopRecording :: "recorder \<Rightarrow> recorder" where
  "stopRecording r =
     (case mediaRecorder r of
        None \<Rightarrow> r
      | Some k \<Rightarrow>
          if k < length (recorders r) \<and> mr_state (recorders r ! k) = Recording
          then (recorder_stop k r)\<lparr>isRecording := False\<rparr> else r)"

text \<open>
  The continuation of an awaited call when the call resolves. A resolved
  \<open>getUserMedia\<close> has opened a new capture stream; \<open>has_input\<close> is what a resolved
  \<open>enumerateDevices\<close> reports about audio inputs.
\<close>

definition resolves :: "platform \<Rightarrow> bool \<Rightarrow> continuation \<Rightarrow> recorder \<Rightarrow> recorder" where
  "resolves pf has_input k r =
     (case k of
        AwaitPermission \<Rightarrow>
          (let n = length (streams r)
           in stop_tracks n (r\<lparr>streams := streams r @ [True], permissionGranted := Some True\<rparr>))
      | AwaitPermissionThenStart p u \<Rightarrow>
          (let n = length (streams r);
               r1 = stop_tracks n (r\<lparr>streams := streams r @ [True], permissionGranted := Some True\<rparr>)
           in r1\<lparr>pending := pending r1 @ [AwaitDevices p u]\<rparr>)
      | AwaitDevices p u \<Rightarrow>
          if \<not> has_input then
            r\<lparr>error_rec := Some ''Microphone access is required to start recording.'',
              permissionGranted := Some False\<rparr>
          else if p = Some False then r
          else startRecording_capture pf u r
      | AwaitCapture u \<Rightarrow>
          (let n = length (streams r); r1 = r\<lparr>streams := streams r @ [True]\<rparr>
           in case mediaRecorderError pf of
                Some m \<Rightarrow>
                  resetState u (r1\<lparr>error_rec := Some (''Could not start recording: '' @ m)\<rparr>)
              | None \<Rightarrow>
                  r1\<lparr>recorders := recorders r1 @
                        [\<lparr>mr_stream = n, mr_state = Recording, stop_queued = False,
                          mr_closure_audioUrl = u\<rparr>],
                     mediaRecorder := Some (length (recorders r1)),
                     isRecording := True\<rparr>))"

text \<open>The continuation when the call rejects with message \<open>m\<close>.\<close>

definition rejects :: "string \<Rightarrow> continuation \<Rightarrow> recorder \<Rightarrow> recorder" where
  "rejects m k r =
     (let denied = r\<lparr>error_rec := Some ''Microphone permission denied. Please allow access in your browser settings.'',
                     permissionGranted := Some False\<rparr>
      in case k of
           AwaitPermission \<Rightarrow> denied
         | AwaitPermissionThenStart p u \<Rightarrow> denied\<lparr>pending := pending denied @ [AwaitDevices p u]\<rparr>
         | AwaitDevices p u \<Rightarrow>
             r\<lparr>error_rec := Some ''Microphone access is required to start recording.'',
               permissionGranted := Some False\<rparr>
         | AwaitCapture u \<Rightarrow>
             resetState u (r\<lparr>error_rec := Some (''Could not start recording: '' @ m)\<rparr>))"

text \<open>
  The stop event of recorder \<open>k\<close> with the data gathered: \<open>ondataavailable\<close> and then
  \<open>onstop\<close>, lines 110 to 123. The error event: \<open>onerror\<close>, lines 125 to 130.
\<close>

definition stop_event :: "nat \<Rightarrow> blob \<Rightarrow> recorder \<Rightarrow> recorder" where
  "stop_event k d r =
     (let r1 = (if 0 < length d then r\<lparr>audioChunks := audioChunks r @ [d]\<rparr> else r);
          r2 = r1\<lparr>audioBlob := Some (concat (audioChunks r1)), audioUrl := Some (urls r1),
                  urls := Suc (urls r1), audioChunks := []\<rparr>;
          r3 = stop_tracks (mr_stream (recorders r2 ! k)) r2
      in r3\<lparr>recorders := (recorders r3)[k := (recorders r3 ! k)\<lparr>stop_queued := False\<rparr>]\<rparr>)"

definition error_event :: "nat \<Rightarrow> recorder \<Rightarrow> recorder" where
  "error_event k r =
     (let r1 = resetState (mr_closure_audioUrl (recorders r ! k))
                 (r\<lparr>error_rec := Some ''An error occurred during recording.''\<rparr>)
      in stop_tracks (mr_stream (recorders r1 ! k)) r1)"

text \<open>
  What can happen to the component: the effect on a changed \<open>transcript.id\<close>, the
  buttons, and the platform's callbacks. A button acts only where the render logic
  (lines 162 to 254) shows it and does not disable it; \<open>uploading\<close> is the prop
  \<open>isUploading\<close>. A callback acts only for a call in flight or a recorder that exists.
\<close>

datatype recorder_event =
    TranscriptChanged
  | ClickRetryPermission
  | ClickRecord
  | ClickStop
  | ClickRedo
  | Resolves nat bool
  | Rejects nat string
  | StopEvent nat blob
  | ErrorEvent nat

definition take_pending :: "nat \<Rightarrow> recorder \<Rightarrow> recorder" where
  "take_pending i r = r\<lparr>pending := take i (pending r) @ drop (Suc i) (pending r)\<rparr>"

fun step :: "platform \<Rightarrow> bool \<Rightarrow> recorder_event \<Rightarrow> recorder \<Rightarrow> recorder" where
  "step pf uploading TranscriptChanged r =
     resetState (audioUrl r) (getMicPermission pf AwaitPermission r)"
| "step pf uploading ClickRetryPermission r =
     (if permissionGranted r = Some False then getMicPermission pf AwaitPermission r else r)"
| "step pf uploading ClickRecord r =
     (if permissionGranted r = Some True \<and> \<not> isRecording r \<and> audioBlob r = None \<and> \<not> uploading
      then startRecording pf (permissionGranted r) (audioUrl r) r else r)"
| "step pf uploading ClickStop r =
     (if permissionGranted r = Some True \<and> isRecording r \<and> \<not> uploading
      then stopRecording r else r)"
| "step pf uploading ClickRedo r =
     (if permissionGranted r = Some True \<and> audioUrl r \<noteq> None \<and> audioBlob r \<noteq> None \<and> \<not> uploading
      then resetState (audioUrl r) r else r)"
| "step pf uploading (Resolves i has_input) r =
     (if i < length (pending r) then resolves pf has_input (pending r ! i) (take_pending i r) else r)"
| "step pf uploading (Rejects i m) r =
     (if i < length (pending r) then rejects m (pending r ! i) (take_pending i r) else r)"
| "step pf uploading (StopEvent k d) r =
     (if k < length (recorders r) \<and> stop_queued (recorders r ! k) then stop_event k d r else r)"
| "step pf uploading (ErrorEvent k) r =
     (if k < length (recorders r) \<and> mr_state (recorders r ! k) = Recording
      then error_event k r else r)"

fun steps :: "platform \<Rightarrow> bool \<Rightarrow> recorder_event list \<Rightarrow> recorder \<Rightarrow> recorder" where
  "steps pf uploading [] r = r"
| "steps pf uploading (ev # evs) r = steps pf uploading evs (step pf uploading ev r)"

definition open_streams :: "recorder \<Rightarrow> nat" where
  "open_streams r = length (filter (\<lambda>live. live) (streams r))"

section \<open>Example data\<close>

text \<open>
  A backend that answers every call, one whose total-count query fails, a table with one pending and one completed task, a
  session recording the pending one, the same session after the completed one was picked
  for re-recording, notifications about the completed task, and a recorder as it is
  first rendered on a platform where everything is supported.
\<close>

definition example_env :: env where
  "example_env = \<lparr>failure = (\<lambda>c. None), publicUrl = (\<lambda>p. Some (''https://cdn.example/'' @ p)),
     assign = (\<lambda>n. (replicate (Suc n) CHR ''u'', n))\<rparr>"


definition empty_backend :: backend where
  "empty_backend = \<lparr>rows = [], objects = Map.empty, serial = 0, calls = []\<rparr>"

definition example_input :: js_string where
  "example_input = [0x61, 0x0A, 0x0A, 0x62, 0x0A, 0x20, 0x20, 0x0A, 0x63]"

definition task1 :: Transcript where
  "task1 = \<lparr>id_t = ''t1'', transcript = [0x61], audio_url = None, status = Pending, created_at = 1\<rparr>"

definition task2 :: Transcript where
  "task2 = \<lparr>id_t = ''t2'', transcript = [0x62],
             audio_url = Some ''https://cdn.example/audio/t2.webm'', status = Completed,
             created_at = 2\<rparr>"

definition example_backend :: backend where
  "example_backend = \<lparr>rows = [task1, task2], objects = Map.empty, serial = 2, calls = []\<rparr>"

definition example_home :: home where
  "example_home =
     \<lparr>isLoading = False, transcriptsExist = Some True, currentTranscript = Some task1,
      totalCount = 0, completedCount = 0, error = None, isUploading = False, mode = Record,
      reviewList = [], isFetchingReviewList = False, transcriptToRerecord = None\<rparr>"

definition rerecording_home :: home where
  "rerecording_home = handleStartRerecord task2 example_home"

definition update_payload :: payload where
  "update_payload = \<lparr>eventType = UPDATE, new = Some task2, old = Some task2\<rparr>"

definition delete_payload :: payload where
  "delete_payload = \<lparr>eventType = DELETE, new = None, old = Some task2\<rparr>"

definition example_platform :: platform where
  "example_platform = \<lparr>mediaDevices = True, typeErrorMessage = [], mediaRecorderError = None\<rparr>"

definition no_webm_platform :: platform where
  "no_webm_platform =
     \<lparr>mediaDevices = True, typeErrorMessage = [], mediaRecorderError = Some ''NotSupportedError''\<rparr>"

definition initial_recorder :: recorder where
  "initial_recorder =
     \<lparr>isRecording = False, audioBlob = None, audioUrl = None, permissionGranted = None,
      error_rec = None, mediaRecorder = None, audioChunks = [], recorders = [],
      streams = [], pending = [], urls = 0\<rparr>"

definition ready_recorder :: recorder where
  "ready_recorder =
     steps example_platform False [TranscriptChanged, Resolves 0 True] initial_recorder"

section \<open>Lines of the intake form\<close>

lemma split_not_Nil: "split sep s \<noteq> []"
  by (induction s) (auto split: list.splits)

lemma split_Cons:
  "split sep (c # cs) =
     (if c = sep then [] # split sep cs else (c # hd (split sep cs)) # tl (split sep cs))"
  using split_not_Nil [of sep cs] by (cases "split sep cs") auto

lemma trim_Nil: "trim [] = []"
  by (simp add: trim_def)

lemma trim_Cons_ws: "isWhiteSpace c \<Longrightarrow> trim (c # l) = trim l"
  by (simp add: trim_def)

lemma isWhiteSpace_newline: "isWhiteSpace newline"
  by (simp add: isWhiteSpace_def newline_def)

lemma lines_Cons_ws:
  assumes "isWhiteSpace c"
  shows "nonempty_trimmed_lines (c # cs) = nonempty_trimmed_lines cs"
proof (cases "c = newline")
  case True
  then show ?thesis
    by (simp add: nonempty_trimmed_lines_def trim_Nil)
next
  case False
  obtain l ls where sp: "split newline cs = l # ls"
    using split_not_Nil [of newline cs] by (cases "split newline cs") auto
  with False assms show ?thesis
    by (simp add: nonempty_trimmed_lines_def trim_Cons_ws)
qed

lemma lines_dropWhile: "nonempty_trimmed_lines (dropWhile isWhiteSpace s) = nonempty_trimmed_lines s"
  by (induction s) (simp_all add: lines_Cons_ws)

lemma split_snoc_sep: "split sep (s @ [sep]) = split sep s @ [[]]"
  by (induction s) (auto split: list.splits simp: split_not_Nil)

lemma split_snoc_other:
  "c \<noteq> sep \<Longrightarrow> split sep (s @ [c]) = butlast (split sep s) @ [last (split sep s) @ [c]]"
proof (induction s)
  case Nil
  then show ?case by simp
next
  case (Cons a s)
  obtain l ls where sp: "split sep s = l # ls"
    using split_not_Nil [of sep s] by (cases "split sep s") auto
  show ?case
  proof (cases "a = sep")
    case True
    with Cons sp show ?thesis by simp
  next
    case False
    with Cons sp show ?thesis by (cases ls) auto
  qed
qed

lemma trim_snoc_ws: "isWhiteSpace c \<Longrightarrow> trim (l @ [c]) = trim l"
  by (induction l) (auto simp: trim_def dropWhile_append3)

lemma lines_snoc_ws:
  assumes "isWhiteSpace c"
  shows "nonempty_trimmed_lines (s @ [c]) = nonempty_trimmed_lines s"
proof (cases "c = newline")
  case True
  then show ?thesis
    by (simp add: nonempty_trimmed_lines_def split_snoc_sep trim_Nil)
next
  case False
  have ne: "split newline s \<noteq> []" by (rule split_not_Nil)
  have "map trim (butlast (split newline s) @ [last (split newline s) @ [c]])
        = map trim (butlast (split newline s) @ [last (split newline s)])"
    using assms by (simp add: trim_snoc_ws)
  also have "\<dots> = map trim (split newline s)"
    using ne by simp
  finally show ?thesis
    using False by (simp add: nonempty_trimmed_lines_def split_snoc_other)
qed

lemma lines_rev_dropWhile:
  "nonempty_trimmed_lines (rev (dropWhile isWhiteSpace r)) = nonempty_trimmed_lines (rev r)"
  by (induction r) (simp_all add: lines_snoc_ws)

lemma lines_trim: "nonempty_trimmed_lines (trim s) = nonempty_trimmed_lines s"
  using lines_rev_dropWhile [of "rev (dropWhile isWhiteSpace s)"]
  by (simp add: trim_def lines_dropWhile)

lemma lines_Nil: "nonempty_trimmed_lines [] = []"
  by (simp add: nonempty_trimmed_lines_def trim_Nil)

lemma code_lines:
  "filter (\<lambda>line. 0 < length line) (map trim (split newline (trim s))) = nonempty_trimmed_lines s"
  using lines_trim [of s] by (simp add: nonempty_trimmed_lines_def)

lemma code_lines_ne:
  "filter (\<lambda>line. line \<noteq> []) (map trim (split newline (trim s))) = nonempty_trimmed_lines s"
  using code_lines [of s] by simp

lemma trim_empty_lines: "trim s = [] \<Longrightarrow> nonempty_trimmed_lines s = []"
  using lines_trim [of s] by (simp add: lines_Nil)

lemma map2_new_row_transcript:
  "length ns = length ts \<Longrightarrow> map transcript (map2 (new_row e) ns ts) = ts"
  by (induction ns ts rule: list_induct2) (simp_all add: new_row_def)

lemma map2_new_row_fresh:
  "r \<in> set (map2 (new_row e) ns ts) \<Longrightarrow> status r = Pending \<and> audio_url r = None"
  by (auto simp: new_row_def dest!: set_zip_leftD in_set_zipE)

lemma example_lines: "nonempty_trimmed_lines example_input = [[0x61], [0x62], [0x63]]"
  by (simp add: nonempty_trimmed_lines_def example_input_def newline_def trim_def isWhiteSpace_def)

text \<open>
  Claim C1. Submitting the form creates one task per non-empty trimmed line of the input,
  in order, each with the trimmed line as its text, pending and without audio, provided
  the backend accepts the insert; an input without such a line creates none. The rows of
  the table before the call are kept as they are.
\<close>

theorem handleSubmit_creates_lines:
  assumes ok: "failure e (Insert (nonempty_trimmed_lines (transcriptList ti))) = None"
    and run: "handleSubmit e onSubmitted (ti, h, b) = (ti', h', b')"
  shows "\<exists>created. rows b' = rows b @ created
           \<and> length created = length (nonempty_trimmed_lines (transcriptList ti))
           \<and> map transcript created = nonempty_trimmed_lines (transcriptList ti)
           \<and> (\<forall>r \<in> set created. status r = Pending \<and> audio_url r = None)"
proof (cases "nonempty_trimmed_lines (transcriptList ti) = []")
  case True
  have "rows b' = rows b"
  proof (cases "trim (transcriptList ti) = []")
    case True
    with run show ?thesis by (simp add: handleSubmit_def)
  next
    case False
    with run True show ?thesis by (simp add: handleSubmit_def code_lines_ne)
  qed
  with True show ?thesis by simp
next
  case False
  let ?L = "nonempty_trimmed_lines (transcriptList ti)"
  let ?new = "map2 (new_row e) [serial b ..< serial b + length ?L] ?L"
  from False have nt: "trim (transcriptList ti) \<noteq> []"
    using trim_empty_lines by blast
  from run nt False ok have "rows b' = rows b @ ?new"
    by (auto simp: handleSubmit_def code_lines_ne db_insert_def issue_def Let_def)
  moreover have "length ?new = length ?L" by simp
  moreover have "map transcript ?new = ?L" by (rule map2_new_row_transcript) simp
  moreover have "\<forall>r \<in> set ?new. status r = Pending \<and> audio_url r = None"
    using map2_new_row_fresh by blast
  ultimately show ?thesis by blast
qed

text \<open>The input "a\n\nb\n  \nc" on an empty table: three tasks with texts a, b, c.\<close>

theorem handleSubmit_creates_lines_witness:
  "failure example_env (Insert (nonempty_trimmed_lines example_input)) = None
   \<and> map transcript (rows (snd (snd (handleSubmit example_env id
        (\<lparr>transcriptList = example_input, isSubmitting = False, error_ti = None\<rparr>, (), empty_backend)))))
     = [[0x61], [0x62], [0x63]]
   \<and> length (rows (snd (snd (handleSubmit example_env id
        (\<lparr>transcriptList = example_input, isSubmitting = False, error_ti = None\<rparr>, (), empty_backend))))) = 3"
proof -
  let ?ti = "\<lparr>transcriptList = example_input, isSubmitting = False, error_ti = None\<rparr>"
  obtain ti' h' b' where run: "handleSubmit example_env id (?ti, (), empty_backend) = (ti', h', b')"
    by (cases "handleSubmit example_env id (?ti, (), empty_backend)") auto
  have ok: "failure example_env (Insert (nonempty_trimmed_lines (transcriptList ?ti))) = None"
    by (simp add: example_env_def)
  from handleSubmit_creates_lines [OF ok run]
  obtain created where "rows b' = rows empty_backend @ created"
    "length created = length (nonempty_trimmed_lines example_input)"
    "map transcript created = nonempty_trimmed_lines example_input"
    by auto
  then show ?thesis
    using run by (simp add: example_lines empty_backend_def example_env_def)
qed

section \<open>Confirming a recording\<close>

lemma fetchCompleted_backend:
  "fetchCompletedTranscripts e (s, b) = (s', b') \<Longrightarrow>
     rows b' = rows b \<and> objects b' = objects b \<and> serial b' = serial b
     \<and> calls b' = calls b @ [SelectCompleted]"
  by (auto simp: fetchCompletedTranscripts_def db_select_completed_def issue_def Let_def
           split: option.splits)

lemma fetchCompleted_state:
  "fetchCompletedTranscripts e (s, b) = (s', b') \<Longrightarrow>
     mode s' = mode s \<and> transcriptToRerecord s' = transcriptToRerecord s
     \<and> isUploading s' = isUploading s \<and> totalCount s' = totalCount s
     \<and> completedCount s' = completedCount s \<and> currentTranscript s' = currentTranscript s"
  by (auto simp: fetchCompletedTranscripts_def db_select_completed_def issue_def Let_def
           split: option.splits)

lemma complete_row_id: "id_t (complete_row i url r) = id_t r"
  by (simp add: complete_row_def)

lemma complete_row_hit:
  "id_t r = i \<Longrightarrow> status (complete_row i url r) = Completed
     \<and> audio_url (complete_row i url r) = Some url"
  by (simp add: complete_row_def)

lemma complete_row_done:
  "\<forall>r \<in> set (map (complete_row i url) rs).
     id_t r = i \<longrightarrow> status r = Completed \<and> audio_url r = Some url"
proof
  fix r assume "r \<in> set (map (complete_row i url) rs)"
  then obtain r0 where r0: "r0 \<in> set rs" "r = complete_row i url r0" by auto
  show "id_t r = i \<longrightarrow> status r = Completed \<and> audio_url r = Some url"
    using r0 complete_row_hit [of r0 i url] by (simp add: complete_row_id)
qed

lemma confirm_success_path:
  assumes target: "map_option id_t (activeTranscriptForRecording s) = Some transcriptId"
    and nonempty: "transcriptId \<noteq> []"
    and up: "failure e (Upload (filePath transcriptId) d) = None"
    and url: "publicUrl e (filePath transcriptId) = Some downloadURL" "downloadURL \<noteq> []"
    and upd: "failure e (Update transcriptId downloadURL) = None"
  shows "handleRecordingConfirm e (Some d) transcriptId (s, b) =
     (let s1 = s\<lparr>isUploading := True, error := None\<rparr>;
          b2 = b\<lparr>objects := (objects b)(filePath transcriptId \<mapsto> d),
                 rows := map (complete_row transcriptId downloadURL) (rows b),
                 calls := calls b @ [Upload (filePath transcriptId) d,
                                     Update transcriptId downloadURL]\<rparr>
      in case transcriptToRerecord s of
           None \<Rightarrow> (s1\<lparr>isUploading := False\<rparr>, b2)
         | Some t \<Rightarrow>
             (let (s2, b3) = fetchCompletedTranscripts e
                    (s1\<lparr>transcriptToRerecord := None, mode := Review\<rparr>, b2)
              in (s2\<lparr>isUploading := False\<rparr>, b3)))"
proof (cases "transcriptToRerecord s")
  case None
  with target obtain t where "currentTranscript s = Some t" "id_t t = transcriptId"
    by (auto simp: activeTranscriptForRecording_def)
  with None nonempty up url upd show ?thesis
    by (simp add: handleRecordingConfirm_def storage_upload_def db_update_def issue_def Let_def)
next
  case (Some t)
  with target have "id_t t = transcriptId"
    by (simp add: activeTranscriptForRecording_def)
  with Some nonempty up url upd show ?thesis
    by (simp add: handleRecordingConfirm_def storage_upload_def db_update_def issue_def Let_def)
qed

text \<open>
  Claim C10. Called without a blob or with an empty identifier, the confirmation sets the
  message \<open>Recording data is missing.\<close> and changes nothing else: the backend is
  the same (no call was issued, nothing stored or written) and so is \<open>isUploading\<close>.
\<close>

theorem confirm_missing_data:
  assumes "blob = None \<or> transcriptId = []"
  shows "handleRecordingConfirm e blob transcriptId (s, b)
           = (s\<lparr>error := Some ''Recording data is missing.''\<rparr>, b)"
  using assms by (auto simp: handleRecordingConfirm_def split: option.splits)

theorem confirm_missing_data_witness:
  "handleRecordingConfirm example_env None ''t1'' (example_home, example_backend)
     = (example_home\<lparr>error := Some ''Recording data is missing.''\<rparr>, example_backend)
   \<and> handleRecordingConfirm example_env (Some [1, 2]) [] (example_home, example_backend)
     = (example_home\<lparr>error := Some ''Recording data is missing.''\<rparr>, example_backend)"
  using confirm_missing_data [of None "''t1''" example_env example_home example_backend]
        confirm_missing_data [of "Some [1, 2]" "[]" example_env example_home example_backend]
  by simp

text \<open>
  Claim C3. Called with a blob and an identifier that is not the identifier of the active
  task (the re-record target if set, otherwise the current pending task, if any), the
  confirmation only sets an error message: the backend is the same, so nothing was
  uploaded and nothing written.
\<close>

theorem confirm_mismatch_rejected:
  assumes "map_option id_t (activeTranscriptForRecording s) \<noteq> Some transcriptId"
  shows "handleRecordingConfirm e (Some d) transcriptId (s, b)
           = (s\<lparr>error := Some (if transcriptId = [] then ''Recording data is missing.''
                                else ''Transcript ID mismatch.'')\<rparr>, b)"
  using assms
  by (auto simp: handleRecordingConfirm_def activeTranscriptForRecording_def split: option.splits)

theorem confirm_mismatch_rejected_witness:
  "map_option id_t (activeTranscriptForRecording example_home) = Some ''t1''
   \<and> handleRecordingConfirm example_env (Some [1, 2]) ''t2'' (example_home, example_backend)
     = (example_home\<lparr>error := Some ''Transcript ID mismatch.''\<rparr>, example_backend)"
proof -
  have a: "map_option id_t (activeTranscriptForRecording example_home) = Some ''t1''"
    by (simp add: activeTranscriptForRecording_def example_home_def task1_def)
  have "map_option id_t (activeTranscriptForRecording example_home) \<noteq> Some ''t2''"
    unfolding a by simp
  from confirm_mismatch_rejected [OF this, of example_env "[1, 2]" example_backend] a
  show ?thesis by simp
qed

text \<open>
  Claim C2. A confirmation for the active task \<open>transcriptId\<close> whose upload, public URL
  and update all succeed stores the blob at the path \<open>audio/<transcriptId>.webm\<close>,
  a function of the identifier alone, replacing what was stored there, and then sets
  audio reference and status of the task in one update call: every row with that
  identifier is completed, also when it was completed before.
\<close>

theorem confirm_uploads_and_completes:
  assumes target: "map_option id_t (activeTranscriptForRecording s) = Some transcriptId"
    and nonempty: "transcriptId \<noteq> []"
    and up: "failure e (Upload (filePath transcriptId) d) = None"
    and url: "publicUrl e (filePath transcriptId) = Some downloadURL" "downloadURL \<noteq> []"
    and upd: "failure e (Update transcriptId downloadURL) = None"
    and run: "handleRecordingConfirm e (Some d) transcriptId (s, b) = (s', b')"
  shows "filePath transcriptId = ''audio/'' @ transcriptId @ ''.webm''
       \<and> objects b' = (objects b)(filePath transcriptId \<mapsto> d)
       \<and> rows b' = map (complete_row transcriptId downloadURL) (rows b)
       \<and> (\<forall>r \<in> set (rows b'). id_t r = transcriptId \<longrightarrow>
             status r = Completed \<and> audio_url r = Some downloadURL)
       \<and> calls b' = calls b @ [Upload (filePath transcriptId) d, Update transcriptId downloadURL]
             @ (case transcriptToRerecord s of None \<Rightarrow> [] | Some t \<Rightarrow> [SelectCompleted])
       \<and> isUploading s' = False"
proof -
  let ?b2 = "b\<lparr>objects := (objects b)(filePath transcriptId \<mapsto> d),
                 rows := map (complete_row transcriptId downloadURL) (rows b),
                 calls := calls b @ [Upload (filePath transcriptId) d,
                                     Update transcriptId downloadURL]\<rparr>"
  let ?s1 = "s\<lparr>isUploading := True, error := None\<rparr>"
  have path: "filePath transcriptId = ''audio/'' @ transcriptId @ ''.webm''"
    by (simp add: filePath_def bucketName_def)
  note sp = confirm_success_path [OF target nonempty up url upd, of b]
  have main: "objects b' = (objects b)(filePath transcriptId \<mapsto> d)
      \<and> rows b' = map (complete_row transcriptId downloadURL) (rows b)
      \<and> calls b' = calls b @ [Upload (filePath transcriptId) d, Update transcriptId downloadURL]
             @ (case transcriptToRerecord s of None \<Rightarrow> [] | Some t \<Rightarrow> [SelectCompleted])
      \<and> isUploading s' = False"
  proof (cases "transcriptToRerecord s")
    case None
    with sp run have "s' = ?s1\<lparr>isUploading := False\<rparr>" "b' = ?b2"
      by (simp_all add: Let_def)
    with None show ?thesis by simp
  next
    case (Some t)
    obtain s2 b3 where f: "fetchCompletedTranscripts e
        (?s1\<lparr>transcriptToRerecord := None, mode := Review\<rparr>, ?b2) = (s2, b3)"
      by (cases "fetchCompletedTranscripts e (?s1\<lparr>transcriptToRerecord := None, mode := Review\<rparr>, ?b2)") auto
    with Some sp run have res: "s' = s2\<lparr>isUploading := False\<rparr>" "b' = b3"
      by (simp_all add: Let_def)
    from fetchCompleted_backend [OF f] res Some show ?thesis by simp
  qed
  then have "\<forall>r \<in> set (rows b'). id_t r = transcriptId \<longrightarrow>
             status r = Completed \<and> audio_url r = Some downloadURL"
    using complete_row_done [of transcriptId downloadURL "rows b"] by simp
  with main path show ?thesis by simp
qed

theorem confirm_uploads_and_completes_witness:
  "map_option id_t (activeTranscriptForRecording rerecording_home) = Some ''t2''
   \<and> objects (snd (handleRecordingConfirm example_env (Some [1, 2]) ''t2''
                     (rerecording_home, example_backend))) ''audio/t2.webm'' = Some [1, 2]
   \<and> map status (rows (snd (handleRecordingConfirm example_env (Some [1, 2]) ''t2''
                     (rerecording_home, example_backend)))) = [Pending, Completed]
   \<and> map audio_url (rows (snd (handleRecordingConfirm example_env (Some [1, 2]) ''t2''
                     (rerecording_home, example_backend))))
        = [None, Some ''https://cdn.example/audio/t2.webm'']"
proof -
  obtain s' b' where run: "handleRecordingConfirm example_env (Some [1, 2]) ''t2''
                     (rerecording_home, example_backend) = (s', b')"
    by (cases "handleRecordingConfirm example_env (Some [1, 2]) ''t2''
                     (rerecording_home, example_backend)") auto
  have a: "map_option id_t (activeTranscriptForRecording rerecording_home) = Some ''t2''"
    by (simp add: activeTranscriptForRecording_def rerecording_home_def handleStartRerecord_def
                  task2_def)
  have n: "''t2'' \<noteq> []" by simp
  have p: "filePath ''t2'' = ''audio/t2.webm''" by (simp add: filePath_def bucketName_def)
  have up: "failure example_env (Upload (filePath ''t2'') [1, 2]) = None"
    by (simp add: example_env_def)
  have url: "publicUrl example_env (filePath ''t2'') = Some ''https://cdn.example/audio/t2.webm''"
    by (simp add: example_env_def p)
  have ne: "''https://cdn.example/audio/t2.webm'' \<noteq> []" by simp
  have upd: "failure example_env (Update ''t2'' ''https://cdn.example/audio/t2.webm'') = None"
    by (simp add: example_env_def)
  from confirm_uploads_and_completes [OF a n up url ne upd run]
  have "objects b' = (objects example_backend)(filePath ''t2'' \<mapsto> [1, 2])"
    "rows b' = map (complete_row ''t2'' ''https://cdn.example/audio/t2.webm'') (rows example_backend)"
    by simp_all
  then show ?thesis
    using a run by (simp add: p example_backend_def complete_row_def task1_def task2_def)
qed

section \<open>Realtime notifications\<close>

lemma db_count_eq:
  "db_count e c P b =
     ((case failure e c of Some m \<Rightarrow> Inl m | None \<Rightarrow> Inr (length (filter P (rows b)))), issue c b)"
  by (simp add: db_count_def split: option.splits)

lemma db_select_next_pending_eq:
  "db_select_next_pending e b =
     ((case failure e SelectNextPending of
         Some m \<Rightarrow> Inl m
       | None \<Rightarrow> Inr (case oldest_first (filter is_pending (rows b)) of [] \<Rightarrow> None | r # _ \<Rightarrow> Some r)),
      issue SelectNextPending b)"
  by (simp add: db_select_next_pending_def split: option.splits)

lemma db_select_completed_eq:
  "db_select_completed e b =
     ((case failure e SelectCompleted of
         Some m \<Rightarrow> Inl m
       | None \<Rightarrow> Inr (newest_first (filter is_completed (rows b)))),
      issue SelectCompleted b)"
  by (simp add: db_select_completed_def split: option.splits)

lemma issue_simps:
  "rows (issue c b) = rows b" "objects (issue c b) = objects b" "serial (issue c b) = serial b"
  "calls (issue c b) = calls b @ [c]"
  by (simp_all add: issue_def)






text \<open>The handler's turn, written out.\<close>

lemma realtime_handler_eq:
  "realtime_handler e p (s, b) =
     ((if eventType p = UPDATE \<and> map_option id_t (new p) = map_option id_t (transcriptToRerecord s)
       then (if mode s = Review then s\<lparr>error := None, isFetchingReviewList := True\<rparr>
             else s\<lparr>error := None\<rparr>)\<lparr>transcriptToRerecord := None, mode := Review\<rparr>
       else (if mode s = Review then s\<lparr>error := None, isFetchingReviewList := True\<rparr>
             else s\<lparr>error := None\<rparr>)),
      [TotalCount (fst (db_count e CountAll (\<lambda>r. True) b)),
       NextPending (fst (db_select_next_pending e b))]
        @ (if mode s = Review then [CompletedList (fst (db_select_completed e b))] else []),
      b\<lparr>calls := calls b @ [CountAll, SelectNextPending]
                    @ (if mode s = Review then [SelectCompleted] else [])\<rparr>)"
  by (simp add: realtime_handler_def fetchCounts_def fetchNextPendingTranscript_def
        fetchCompletedTranscripts_begin_def db_count_eq db_select_next_pending_eq
        db_select_completed_eq issue_def split: option.splits)

lemma resume_rows:
  "resume e k (s, b) = (s', q', b') \<Longrightarrow> rows b' = rows b \<and> objects b' = objects b"
  by (cases "(e, k, (s, b))" rule: resume.cases) (auto simp: db_count_eq issue_def)

lemma resume_target_mode:
  "resume e k (s, b) = (s', q', b') \<Longrightarrow>
     transcriptToRerecord s' = transcriptToRerecord s \<and> mode s' = mode s"
  by (cases "(e, k, (s, b))" rule: resume.cases) (auto simp: db_count_eq issue_def)

lemma deliver_rows:
  "deliver e i (s, q, b) = (s', q', b') \<Longrightarrow> rows b' = rows b \<and> objects b' = objects b"
  by (auto simp: deliver_def split: if_splits prod.splits dest: resume_rows)

lemma realtime_handler_rows:
  "realtime_handler e p (s, b) = (s', q', b') \<Longrightarrow> rows b' = rows b"
  by (auto simp: realtime_handler_eq split: if_splits)

text \<open>Taking the answer at once is beginning the fetch and resuming it.\<close>

lemma fetchCompleted_split:
  "fetchCompletedTranscripts e (s, b) =
     (case fetchCompletedTranscripts_begin e (s, b) of
        (s1, q, b1) \<Rightarrow> (case resume e (hd q) (s1, b1) of (s2, q2, b2) \<Rightarrow> (s2, b2)))"
  by (simp add: fetchCompletedTranscripts_def fetchCompletedTranscripts_begin_def
        db_select_completed_eq Let_def split: option.splits)










text \<open>
  Claim C7. (as amended) On an UPDATE notification whose new record has the identifier of the
  re-record target, the handler clears the target and sets the mode to review.
\<close>

theorem realtime_update_clears_target:
  assumes "eventType p = UPDATE"
    and "map_option id_t (new p) = map_option id_t (transcriptToRerecord s)"
    and run: "realtime_handler e p (s, b) = (s', q', b')"
  shows "transcriptToRerecord s' = None \<and> mode s' = Review"
  using assms by (auto simp: realtime_handler_eq split: if_splits)

theorem realtime_update_clears_target_witness:
  "eventType update_payload = UPDATE
   \<and> map_option id_t (new update_payload) = map_option id_t (transcriptToRerecord rerecording_home)
   \<and> transcriptToRerecord rerecording_home = Some task2
   \<and> transcriptToRerecord (fst (realtime_handler example_env update_payload
        (rerecording_home, example_backend))) = None
   \<and> mode (fst (realtime_handler example_env update_payload
        (rerecording_home, example_backend))) = Review"
proof -
  obtain s' q' b' where run:
    "realtime_handler example_env update_payload (rerecording_home, example_backend) = (s', q', b')"
    by (cases "realtime_handler example_env update_payload (rerecording_home, example_backend)") auto
  have h1: "eventType update_payload = UPDATE" by (simp add: update_payload_def)
  have t: "transcriptToRerecord rerecording_home = Some task2"
    by (simp add: rerecording_home_def handleStartRerecord_def)
  have h2: "map_option id_t (new update_payload) = map_option id_t (transcriptToRerecord rerecording_home)"
    by (simp add: t update_payload_def)
  from realtime_update_clears_target [OF h1 h2 run] h1 h2 t show ?thesis
    unfolding run by simp
qed

text \<open>
  The claim as first stated spoke of every notification. A DELETE notification for
  the very task being re-recorded leaves the target and the record mode in place.
\<close>

theorem realtime_delete_keeps_target:
  "changed_record_id delete_payload = map_option id_t (transcriptToRerecord rerecording_home)
   \<and> transcriptToRerecord rerecording_home = Some task2
   \<and> transcriptToRerecord (fst (realtime_handler example_env delete_payload
        (rerecording_home, example_backend))) = Some task2
   \<and> mode (fst (realtime_handler example_env delete_payload
        (rerecording_home, example_backend))) = Record"
  by (simp add: realtime_handler_eq changed_record_id_def delete_payload_def rerecording_home_def
        handleStartRerecord_def task2_def)

lemma switchToReviewMode_rows:
  assumes "switchToReviewMode e (s, b) = (s', b')"
  shows "rows b' = rows b"
proof -
  from assms have "fetchCompletedTranscripts e
      (s\<lparr>mode := Review, transcriptToRerecord := None, error := None\<rparr>, b) = (s', b')"
    by (simp add: switchToReviewMode_def)
  from fetchCompleted_backend [OF this] show ?thesis by simp
qed


section \<open>Review mode and the life of a status\<close>

text \<open>
  Claim C9. Cancelling a re-record is \<open>switchToReviewMode\<close>: the session is in review
  mode with no re-record target, and the backend has only been read (one completed-list
  query), so rows and stored objects are what they were. Starting the re-record,
  \<open>handleStartRerecord\<close>, acts on the session state alone.
\<close>

theorem cancel_rerecord_no_write:
  assumes "switchToReviewMode e (s, b) = (s', b')"
  shows "rows b' = rows b \<and> objects b' = objects b \<and> calls b' = calls b @ [SelectCompleted]
       \<and> mode s' = Review \<and> transcriptToRerecord s' = None"
proof -
  let ?s0 = "s\<lparr>mode := Review, transcriptToRerecord := None, error := None\<rparr>"
  from assms have f: "fetchCompletedTranscripts e (?s0, b) = (s', b')"
    by (simp add: switchToReviewMode_def)
  from fetchCompleted_backend [OF f] fetchCompleted_state [OF f] show ?thesis by simp
qed

theorem cancel_rerecord_no_write_witness:
  "rows (snd (switchToReviewMode example_env (rerecording_home, example_backend)))
     = rows example_backend
   \<and> objects (snd (switchToReviewMode example_env (rerecording_home, example_backend)))
     = objects example_backend
   \<and> mode (fst (switchToReviewMode example_env (rerecording_home, example_backend))) = Review
   \<and> transcriptToRerecord (fst (switchToReviewMode example_env (rerecording_home, example_backend)))
     = None"
proof -
  obtain s' b' where run: "switchToReviewMode example_env (rerecording_home, example_backend) = (s', b')"
    by (cases "switchToReviewMode example_env (rerecording_home, example_backend)") auto
  from cancel_rerecord_no_write [OF run] show ?thesis
    unfolding run by simp
qed

lemma confirm_rows:
  assumes "handleRecordingConfirm e blob transcriptId (s, b) = (s', b')"
  shows "rows b' = rows b \<or> (\<exists>url. rows b' = map (complete_row transcriptId url) (rows b))"
proof -
  have fc: "\<And>s0 b0 s1 b1. fetchCompletedTranscripts e (s0, b0) = (s1, b1) \<Longrightarrow> rows b1 = rows b0"
    using fetchCompleted_backend by blast
  from assms show ?thesis
    by (auto simp: handleRecordingConfirm_def storage_upload_def db_update_def issue_def Let_def
             split: option.splits if_splits prod.splits dest!: fc)
qed

lemma db_insert_rows:
  assumes "db_insert e ts b = (r, b')"
  shows "\<exists>created. rows b' = rows b @ created \<and> (\<forall>r \<in> set created. status r = Pending)"
proof (cases "failure e (Insert ts)")
  case None
  with assms have "rows b' = rows b @ map2 (new_row e) [serial b ..< serial b + length ts] ts"
    by (auto simp: db_insert_def issue_def)
  then show ?thesis using map2_new_row_fresh by blast
next
  case (Some m)
  with assms have "rows b' = rows b" by (auto simp: db_insert_def issue_def)
  then show ?thesis by simp
qed

lemma submit_rows:
  assumes "handleSubmit e f (ti, s, b) = (ti', s', b')"
  shows "\<exists>created. rows b' = rows b @ created \<and> (\<forall>r \<in> set created. status r = Pending)"
proof -
  have "rows b' = rows b \<or> (\<exists>ts r. db_insert e ts b = (r, b'))"
    using assms
    by (auto simp: handleSubmit_def Let_def split: option.splits if_splits prod.splits)
  then show ?thesis
    using db_insert_rows by fastforce
qed

lemma apply_operation_rows:
  assumes "apply_operation e x (ti, s, q, b) = (ti', s', q', b')"
  shows "(\<exists>created. rows b' = rows b @ created \<and> (\<forall>r \<in> set created. status r = Pending))
       \<or> (\<exists>i url. rows b' = map (complete_row i url) (rows b))"
proof (cases x)
  case (Submit input)
  with assms obtain ti1 s1 b1 where h:
    "handleSubmit e handleTranscriptsSubmitted (ti\<lparr>transcriptList := input\<rparr>, s, b) = (ti1, s1, b1)"
    and b': "b' = b1"
    by (auto split: prod.splits)
  from submit_rows [OF h] b' show ?thesis by simp
next
  case (Confirm blob i)
  with assms obtain s1 b1 where "handleRecordingConfirm e blob i (s, b) = (s1, b1)" "b' = b1"
    by (auto split: prod.splits)
  with confirm_rows [of e blob i s b s1 b1] show ?thesis by auto
next
  case (StartRerecord t)
  with assms show ?thesis by auto
next
  case SwitchToRecord
  with assms show ?thesis by auto
next
  case SwitchToReview
  with assms obtain s1 b1 where "switchToReviewMode e (s, b) = (s1, b1)" "b' = b1"
    by (auto split: prod.splits)
  with switchToReviewMode_rows [of e s b s1 b1] show ?thesis by auto
next
  case (Notify p)
  with assms obtain s1 q1 b1 where "realtime_handler e p (s, b) = (s1, q1, b1)" "b' = b1"
    by (auto split: prod.splits)
  with realtime_handler_rows [of e p s b s1 q1 b1] show ?thesis by auto
next
  case (Deliver i)
  with assms obtain s1 q1 b1 where "deliver e i (s, q, b) = (s1, q1, b1)" "b' = b1"
    by (auto split: prod.splits)
  with deliver_rows [of e i s q b s1 q1 b1] show ?thesis by auto
qed

lemma apply_operation_keeps:
  assumes "apply_operation e x (ti, s, q, b) = (ti', s', q', b')" and "i < length (rows b)"
  shows "i < length (rows b') \<and> id_t (rows b' ! i) = id_t (rows b ! i)
       \<and> transcript (rows b' ! i) = transcript (rows b ! i)
       \<and> (status (rows b ! i) = Completed \<longrightarrow> status (rows b' ! i) = Completed)"
  using apply_operation_rows [OF assms(1)] assms(2)
  by (auto simp: nth_append complete_row_def)

lemma run_keeps:
  "run ops (ti, s, q, b) = (ti', s', q', b') \<Longrightarrow> i < length (rows b) \<Longrightarrow>
     i < length (rows b') \<and> id_t (rows b' ! i) = id_t (rows b ! i)
     \<and> transcript (rows b' ! i) = transcript (rows b ! i)
     \<and> (status (rows b ! i) = Completed \<longrightarrow> status (rows b' ! i) = Completed)"
proof (induction ops arbitrary: ti s q b)
  case Nil
  then show ?case by simp
next
  case (Cons step ops)
  obtain e x where step: "step = (e, x)" by (cases step)
  obtain ti1 s1 q1 b1 where one: "apply_operation e x (ti, s, q, b) = (ti1, s1, q1, b1)"
    by (cases "apply_operation e x (ti, s, q, b)") auto
  from Cons.prems(1) step one have rest: "run ops (ti1, s1, q1, b1) = (ti', s', q', b')" by simp
  note k1 = apply_operation_keeps [OF one Cons.prems(2)]
  from k1 have "i < length (rows b1)" by simp
  from Cons.IH [OF rest this] k1 show ?case by simp
qed

text \<open>
  Claim C5. Along every run of operations (submissions, confirmations, re-record starts, mode
  switches, notifications and the arrival of their answers), each with any backend
  behaviour, a row that is completed stays in its place in the table, keeps its
  identifier and is completed at the end.
\<close>

theorem status_monotonic:
  assumes "run ops (ti, s, q, b) = (ti', s', q', b')"
    and "i < length (rows b)"
    and "status (rows b ! i) = Completed"
  shows "i < length (rows b') \<and> id_t (rows b' ! i) = id_t (rows b ! i)
       \<and> status (rows b' ! i) = Completed"
  using run_keeps [OF assms(1,2)] assms(3) by simp

theorem status_monotonic_witness:
  "1 < length (rows example_backend) \<and> status (rows example_backend ! 1) = Completed
   \<and> status (rows (snd (snd (snd (run
        [(example_env, StartRerecord task2), (example_env, Confirm (Some [1, 2]) ''t2''),
         (example_env, Submit example_input), (example_env, Notify update_payload),
         (example_env, Deliver 0)]
        (\<lparr>transcriptList = [], isSubmitting = False, error_ti = None\<rparr>, example_home, [],
         example_backend))))) ! 1) = Completed"
proof -
  let ?ops = "[(example_env, StartRerecord task2), (example_env, Confirm (Some [1, 2]) ''t2''),
         (example_env, Submit example_input), (example_env, Notify update_payload),
         (example_env, Deliver 0)]"
  let ?ti = "\<lparr>transcriptList = [], isSubmitting = False, error_ti = None\<rparr>"
  obtain ti' s' q' b' where run: "run ?ops (?ti, example_home, [], example_backend) = (ti', s', q', b')"
    by (cases "run ?ops (?ti, example_home, [], example_backend)") auto
  have h1: "1 < length (rows example_backend)" by (simp add: example_backend_def)
  have h2: "status (rows example_backend ! 1) = Completed"
    by (simp add: example_backend_def task2_def)
  from status_monotonic [OF run h1 h2] h1 h2 show ?thesis
    unfolding run by simp
qed

section \<open>The recorder's record button and its streams\<close>

text \<open>
  Claim C8. While permission is not granted (the state is null or false) or an upload is in
  progress, pressing record changes nothing: the button is not rendered, or is disabled,
  so \<open>startRecording\<close> does not run, no stream is opened and no recording begins.
\<close>

theorem record_button_gated:
  assumes "permissionGranted r \<noteq> Some True \<or> uploading"
  shows "step pf uploading ClickRecord r = r"
  using assms by auto

theorem record_button_gated_witness:
  "step example_platform False ClickRecord (ready_recorder\<lparr>permissionGranted := Some False\<rparr>)
     = ready_recorder\<lparr>permissionGranted := Some False\<rparr>
   \<and> step example_platform False ClickRecord (ready_recorder\<lparr>permissionGranted := None\<rparr>)
     = ready_recorder\<lparr>permissionGranted := None\<rparr>
   \<and> step example_platform True ClickRecord ready_recorder = ready_recorder"
  using record_button_gated [of "ready_recorder\<lparr>permissionGranted := Some False\<rparr>" False example_platform]
        record_button_gated [of "ready_recorder\<lparr>permissionGranted := None\<rparr>" False example_platform]
        record_button_gated [of ready_recorder True example_platform]
  by simp

text \<open>
  Where the \<open>MediaRecorder\<close> constructor throws, the catch block resets the state but
  does not stop the stream that was just opened; the next start opens another one.
\<close>

lemma constructor_failure_leaks_stream:
  "open_streams (steps no_webm_platform False
        [TranscriptChanged, Resolves 0 True, ClickRecord, Resolves 0 True] initial_recorder) = 1
   \<and> isRecording (steps no_webm_platform False
        [TranscriptChanged, Resolves 0 True, ClickRecord, Resolves 0 True] initial_recorder) = False
   \<and> open_streams (steps no_webm_platform False
        [TranscriptChanged, Resolves 0 True, ClickRecord, Resolves 0 True,
         ClickRecord, Resolves 0 True] initial_recorder) = 2"
  by (simp add: open_streams_def initial_recorder_def no_webm_platform_def startRecording_def
        startRecording_capture_def getMicPermission_def resetState_def resolves_def
        stop_tracks_def take_pending_def Let_def)

text \<open>
  Claim C4. The code at a run the claim excludes: record is pressed twice before the first
  \<open>getUserMedia\<close> call resolves. The second \<open>resetState\<close> finds no recorder to
  stop, both calls resolve, and two capture streams are live at once, the first with a
  recorder that no ref points to any more.
\<close>

theorem double_start_two_streams:
  "open_streams (steps example_platform False
        [TranscriptChanged, Resolves 0 True] initial_recorder) = 0
   \<and> permissionGranted (steps example_platform False
        [TranscriptChanged, Resolves 0 True] initial_recorder) = Some True
   \<and> open_streams (steps example_platform False
        [TranscriptChanged, Resolves 0 True,
         ClickRecord, ClickRecord, Resolves 0 True, Resolves 0 True] initial_recorder) = 2
   \<and> mediaRecorder (steps example_platform False
        [TranscriptChanged, Resolves 0 True,
         ClickRecord, ClickRecord, Resolves 0 True, Resolves 0 True] initial_recorder) = Some 1
   \<and> map mr_state (recorders (steps example_platform False
        [TranscriptChanged, Resolves 0 True,
         ClickRecord, ClickRecord, Resolves 0 True, Resolves 0 True] initial_recorder))
       = [Recording, Recording]"
  by (simp add: open_streams_def initial_recorder_def example_platform_def startRecording_def
        startRecording_capture_def getMicPermission_def resetState_def resolves_def
        stop_tracks_def take_pending_def Let_def)

end
